theory Spec2Isabelle
  imports Complex_Main "HOL-Library.Word"
begin

unbundle bit_operations_syntax

section \<open>Python values shared by the model\<close>

text \<open>
  The sensor module is Python. Its unbounded integers are modelled as \<open>int\<close>, its floats
  as \<open>real\<close> (rounding is not modelled), the elements of a bytearray as \<open>8 word\<close>.
  An exception is a value of \<open>error\<close>, returned as \<open>Inl\<close>.

  The runout check compares a sum of two clock values with the clock, where the rounding
  of the sum decides the outcome. There the arithmetic of doubles is not computed but
  taken as a parameter: \<open>float_add\<close> and \<open>float_sub\<close> are the host's rounded sum and
  difference of two doubles. The values of doubles are reals and are compared as such.
\<close>

datatype error = TypeError | AttributeError | ZeroDivisionError | StructError

record float_ops =
  float_add :: "real \<Rightarrow> real \<Rightarrow> real"
  float_sub :: "real \<Rightarrow> real \<Rightarrow> real"

type_synonym byte = "8 word"

definition py_truediv :: "real \<Rightarrow> real \<Rightarrow> error + real" where
  \<comment> \<open>Python's \<open>x / y\<close> on floats raises on a zero divisor.\<close>
  "py_truediv x y = (if y = 0 then Inl ZeroDivisionError else Inr (x / y))"

definition ebind :: "error + 'a \<Rightarrow> ('a \<Rightarrow> error + 'b) \<Rightarrow> error + 'b" where
  \<comment> \<open>Sequencing: an exception raised by the first computation ends the second.\<close>
  "ebind r f = (case r of Inl e \<Rightarrow> Inl e | Inr x \<Rightarrow> f x)"

definition py_or :: "'a option \<Rightarrow> 'a option \<Rightarrow> 'a option" where
  \<comment> \<open>\<open>a or b\<close> on values that are either \<open>None\<close> or an (always truthy) object.\<close>
  "py_or a b = (case a of Some x \<Rightarrow> Some x | None \<Rightarrow> b)"

section \<open>SensorRotationHelper\<close>

record SensorRotationHelper =
  resolution :: nat
  ignore_bits :: nat
  angle_max_value :: int
  angle_min_value :: int
  mask_value :: int
  priv_absolute_angular_position :: int

definition SensorRotationHelper_init :: "nat \<Rightarrow> nat \<Rightarrow> SensorRotationHelper" where
  "SensorRotationHelper_init res ign =
     \<lparr> resolution = res,
       ignore_bits = ign,
       angle_max_value = push_bit res 1 - 1,
       angle_min_value = push_bit ign 1,
       mask_value = push_bit ign 1 - 1,
       priv_absolute_angular_position = 0 \<rparr>"

definition angular_resolution :: "SensorRotationHelper \<Rightarrow> error + real" where
  "angular_resolution h =
     (case py_truediv (real_of_int (angle_min_value h)) (real_of_int (angle_max_value h)) of
        Inl e \<Rightarrow> Inl e
      | Inr q \<Rightarrow> Inr (q * 360))"

definition absolute_angular_position :: "SensorRotationHelper \<Rightarrow> error + real" where
  "absolute_angular_position h =
     (case py_truediv (real_of_int (priv_absolute_angular_position h AND NOT (mask_value h)))
                      (real_of_int (angle_max_value h)) of
        Inl e \<Rightarrow> Inl e
      | Inr q \<Rightarrow> Inr (q * 360))"

definition update_raw :: "int \<Rightarrow> int \<Rightarrow> SensorRotationHelper \<Rightarrow> SensorRotationHelper" where
  "update_raw turns angle h =
     h\<lparr> priv_absolute_angular_position := turns * angle_max_value h + angle \<rparr>"

section \<open>SensorEvent and CommandedMove\<close>

record SensorEvent =
  eventtime :: real
  position :: real
  distance :: real
  epos :: real

definition SensorEvent_init :: "real \<Rightarrow> real \<Rightarrow> real \<Rightarrow> real \<Rightarrow> SensorEvent" where
  "SensorEvent_init t p d e = \<lparr> eventtime = t, position = p, distance = d, epos = e \<rparr>"

text \<open>
  Fields of \<open>CommandedMove\<close> whose names are those of \<open>SensorEvent\<close> fields carry the
  suffix \<open>_mv\<close>.
\<close>

record CommandedMove =
  eventtime_mv :: real
  pos :: real
  last_epos :: real
  epos_mv :: real
  distance_mv :: real
  ended :: bool
  sensor_events :: "SensorEvent list"
  first_event :: "SensorEvent option"
  last_event :: "SensorEvent option"
  first_motion_event :: "SensorEvent option"
  last_motion_event :: "SensorEvent option"

definition CommandedMove_init :: "real \<Rightarrow> real \<Rightarrow> real \<Rightarrow> real \<Rightarrow> CommandedMove" where
  "CommandedMove_init t p le e =
     \<lparr> eventtime_mv = t, pos = p, last_epos = le, epos_mv = e, distance_mv = e - le,
       ended = False, sensor_events = [], first_event = None, last_event = None,
       first_motion_event = None, last_motion_event = None \<rparr>"

definition add_sensor_event :: "SensorEvent \<Rightarrow> bool \<Rightarrow> CommandedMove \<Rightarrow> CommandedMove" where
  "add_sensor_event event capture m =
     (let m1 = (if capture then m\<lparr>sensor_events := event # sensor_events m\<rparr> else m);
          m2 = (if first_event m1 = None then m1\<lparr>first_event := Some event\<rparr> else m1);
          m3 = (if distance event \<noteq> 0
                then (if first_motion_event m2 = None
                      then m2\<lparr>first_motion_event := Some event\<rparr>
                      else m2)\<lparr>last_motion_event := Some event\<rparr>
                else m2)
      in m3\<lparr>last_event := Some event\<rparr>)"

definition last_motion_eventtime :: "CommandedMove \<Rightarrow> real option" where
  "last_motion_eventtime m =
     (case last_motion_event m of None \<Rightarrow> None | Some e \<Rightarrow> Some (eventtime e))"

definition first_motion_eventtime :: "CommandedMove \<Rightarrow> real option" where
  "first_motion_eventtime m =
     (case first_motion_event m of None \<Rightarrow> None | Some e \<Rightarrow> Some (eventtime e))"

definition duration :: "CommandedMove \<Rightarrow> error + real option" where
  \<comment> \<open>\<open>if e := ...\<close> is false for \<open>None\<close> and for \<open>0.0\<close>; \<open>e - None\<close> is a TypeError.\<close>
  "duration m =
     (case last_motion_eventtime m of
        None \<Rightarrow> Inr None
      | Some e \<Rightarrow>
          if e = 0 then Inr None
          else (case first_motion_eventtime m of
                  None \<Rightarrow> Inl TypeError
                | Some f \<Rightarrow> Inr (Some (e - f))))"

definition expected_distance :: "CommandedMove \<Rightarrow> real option" where
  "expected_distance m =
     (case last_event m of None \<Rightarrow> None | Some l \<Rightarrow> Some (epos l - last_epos m))"

definition measured_distance :: "CommandedMove \<Rightarrow> error + real" where
  \<comment> \<open>\<open>self.first_event.position\<close> on \<open>None\<close> is an AttributeError.\<close>
  "measured_distance m =
     (case last_event m of
        None \<Rightarrow> Inr 0
      | Some l \<Rightarrow>
          (case first_event m of
             None \<Rightarrow> Inl AttributeError
           | Some f \<Rightarrow> Inr (position l - position f)))"

definition speed :: "CommandedMove \<Rightarrow> error + real option" where
  "speed m =
     ebind (duration m) (\<lambda>d'.
       case d' of
         None \<Rightarrow> Inr None
       | Some d \<Rightarrow>
           if d = 0 then Inr None
           else ebind (measured_distance m) (\<lambda>md.
                  ebind (py_truediv md d) (\<lambda>q. Inr (Some q))))"

definition extrusion_rate :: "CommandedMove \<Rightarrow> error + real" where
  "extrusion_rate m =
     (case expected_distance m of
        None \<Rightarrow> Inr 0
      | Some d \<Rightarrow>
          if d = 0 then Inr 0
          else ebind (measured_distance m) (\<lambda>md. py_truediv md d))"

definition combine_moves :: "CommandedMove \<Rightarrow> CommandedMove \<Rightarrow> CommandedMove" where
  "combine_moves newer older =
     (CommandedMove_init (eventtime_mv older) (pos older) (last_epos older) (epos_mv newer))
       \<lparr> ended := ended newer,
         first_event := py_or (first_event older) (first_event newer),
         first_motion_event := py_or (first_motion_event older) (first_motion_event newer),
         last_motion_event := py_or (last_motion_event newer) (last_motion_event older),
         last_event := py_or (last_event newer) (last_event older),
         sensor_events := sensor_events newer @ sensor_events older \<rparr>"

section \<open>TriggerOnChange\<close>

text \<open>
  A trigger holds a value (\<open>None\<close>, \<open>True\<close> or \<open>False\<close>) and a callback. The callback
  acts on a world \<open>'w\<close> and may raise. \<open>set\<close> calls it with the old and the new value when
  they differ, and stores the new value afterwards; it returns the stored value and the
  world.
\<close>

definition TriggerOnChange_set ::
  "(bool option \<Rightarrow> bool \<Rightarrow> 'w \<Rightarrow> error + 'w) \<Rightarrow> bool option \<Rightarrow> bool \<Rightarrow> 'w
     \<Rightarrow> error + (bool option \<times> 'w)" where
  "TriggerOnChange_set fn cur v w =
     (if Some v \<noteq> cur
      then ebind (fn cur v w) (\<lambda>w'. Inr (Some v, w'))
      else Inr (Some v, w))"

fun TriggerOnChange_set_all ::
  "(bool option \<Rightarrow> bool \<Rightarrow> 'w \<Rightarrow> error + 'w) \<Rightarrow> bool option \<Rightarrow> bool list \<Rightarrow> 'w
     \<Rightarrow> error + (bool option \<times> 'w)" where
  "TriggerOnChange_set_all fn cur [] w = Inr (cur, w)"
| "TriggerOnChange_set_all fn cur (v # vs) w =
     ebind (TriggerOnChange_set fn cur v w) (\<lambda>(cur', w'). TriggerOnChange_set_all fn cur' vs w')"

definition TriggerOnChange_bool :: "bool option \<Rightarrow> error + bool" where
  \<comment> \<open>\<open>__bool__\<close> returns the stored value; Python raises when that is \<open>None\<close>.\<close>
  "TriggerOnChange_bool cur = (case cur of None \<Rightarrow> Inl TypeError | Some b \<Rightarrow> Inr b)"

definition record_call ::
  "bool option \<Rightarrow> bool \<Rightarrow> (bool option \<times> bool) list \<Rightarrow> error + (bool option \<times> bool) list" where
  \<comment> \<open>A callback that only records the arguments of each call, in order.\<close>
  "record_call old new calls = Inr (calls @ [(old, new)])"

section \<open>HighResolutionFilamentSensor\<close>

subsection \<open>What the sensor prints\<close>

text \<open>
  Log lines and console responses are kept as a list, in the order they are issued. A
  message keeps the values that the source formats into its text.
\<close>

datatype message =
    Changed string "bool option" bool
  | Reconnected
  | No_longer_connected
  | Filament_present
  | Filament_not_present
  | Detected_underextrusion real
  | Underextrusion_cleared real
  | Unable_to_read
  | Update_from_sensor_failed nat "byte list"
  | Received_wrong_message_prefix "byte list"
  | Received_response_for_reg int int

datatype notice =
    Logging_info message
  | Logging_warning message
  | Gcode_respond_info message
  | Gcode_respond_raw message

fun user_visible :: "notice \<Rightarrow> bool" where
  \<comment> \<open>What reaches the printer's console, as opposed to the host's log file.\<close>
  "user_visible (Logging_info m) = False"
| "user_visible (Logging_warning m) = False"
| "user_visible (Gcode_respond_info m) = True"
| "user_visible (Gcode_respond_raw m) = True"

subsection \<open>State\<close>

text \<open>
  The fields of the sensor object that the modelled methods read or write. The value of
  each \<open>TriggerOnChange\<close> member is a field; its callback is the function of the same
  name below. Fields whose names are those of \<open>SensorEvent\<close> or \<open>CommandedMove\<close> fields
  carry the suffix \<open>_s\<close>.
\<close>

record Sensor =
  invert_direction :: bool
  rotation_distance :: real
  underextrusion_max_rate :: real
  underextrusion_period :: real
  commanded_moves :: "CommandedMove list"
  capture_history :: bool
  position_s :: real
  underextrusion_start_time :: "real option"
  underextruding :: "bool option"
  last_epos_s :: real
  status_evaluation_move :: "CommandedMove option"
  magnet_state :: int
  sensor_connected :: "bool option"
  filament_present :: "bool option"
  rotation_helper :: SensorRotationHelper
  outputs :: "notice list"

definition HighResolutionFilamentSensor_init ::
  "bool \<Rightarrow> real \<Rightarrow> real \<Rightarrow> real \<Rightarrow> nat \<Rightarrow> Sensor" where
  "HighResolutionFilamentSensor_init invert rot max_rate period hysteresis_bits =
     \<lparr> invert_direction = invert,
       rotation_distance = rot,
       underextrusion_max_rate = max_rate,
       underextrusion_period = period,
       commanded_moves = [],
       capture_history = False,
       position_s = 0,
       underextrusion_start_time = None,
       underextruding = Some False,
       last_epos_s = 0,
       status_evaluation_move = None,
       magnet_state = 255,
       sensor_connected = None,
       filament_present = None,
       rotation_helper = SensorRotationHelper_init 12 hysteresis_bits,
       outputs = [] \<rparr>"

definition emit :: "notice \<Rightarrow> Sensor \<Rightarrow> Sensor" where
  "emit out s = s\<lparr>outputs := outputs s @ [out]\<rparr>"

definition respond_error :: "message \<Rightarrow> Sensor \<Rightarrow> Sensor" where
  "respond_error msg s = emit (Gcode_respond_raw msg) (emit (Logging_warning msg) s)"

definition respond_info :: "message \<Rightarrow> Sensor \<Rightarrow> Sensor" where
  "respond_info msg s = emit (Gcode_respond_info msg) s"

subsection \<open>Callbacks of the triggers\<close>

definition sensor_connected_changed :: "bool option \<Rightarrow> bool \<Rightarrow> Sensor \<Rightarrow> error + Sensor" where
  "sensor_connected_changed old_value new_value s =
     (let s1 = emit (Logging_info (Changed ''sensor_connected'' old_value new_value)) s
      in if old_value = None then Inr s1
         else if new_value then Inr (respond_info Reconnected s1)
         else Inr (respond_error No_longer_connected s1))"

definition filament_present_changed :: "bool option \<Rightarrow> bool \<Rightarrow> Sensor \<Rightarrow> error + Sensor" where
  "filament_present_changed old_value new_value s =
     (let s1 = emit (Logging_info (Changed ''filament_present'' old_value new_value)) s
      in if old_value = None then Inr s1
         else if new_value then Inr (respond_info Filament_present s1)
         else Inr (respond_error Filament_not_present s1))"

definition underextruding_changed ::
  "float_ops \<Rightarrow> real \<Rightarrow> bool option \<Rightarrow> bool \<Rightarrow> Sensor \<Rightarrow> error + Sensor" where
  \<comment> \<open>\<open>now\<close> is the reactor's clock; \<open>now - None\<close> is a TypeError.\<close>
  "underextruding_changed fl now old_value new_value s =
     (let s1 = emit (Logging_info (Changed ''underextruding'' old_value new_value)) s
      in if new_value
         then Inr (respond_error (Detected_underextrusion (underextrusion_period s1)) s1)
         else (case underextrusion_start_time s1 of
                 None \<Rightarrow> Inl TypeError
               | Some t \<Rightarrow>
                   Inr (respond_info (Underextrusion_cleared (float_sub fl now t)) s1)))"

definition set_sensor_connected :: "bool \<Rightarrow> Sensor \<Rightarrow> error + Sensor" where
  "set_sensor_connected v s =
     ebind (TriggerOnChange_set sensor_connected_changed (sensor_connected s) v s)
       (\<lambda>(v', s'). Inr (s'\<lparr>sensor_connected := v'\<rparr>))"

definition set_filament_present :: "bool \<Rightarrow> Sensor \<Rightarrow> error + Sensor" where
  "set_filament_present v s =
     ebind (TriggerOnChange_set filament_present_changed (filament_present s) v s)
       (\<lambda>(v', s'). Inr (s'\<lparr>filament_present := v'\<rparr>))"

definition set_underextruding ::
  "float_ops \<Rightarrow> real \<Rightarrow> bool \<Rightarrow> Sensor \<Rightarrow> error + Sensor" where
  "set_underextruding fl now v s =
     ebind (TriggerOnChange_set (underextruding_changed fl now) (underextruding s) v s)
       (\<lambda>(v', s'). Inr (s'\<lparr>underextruding := v'\<rparr>))"

subsection \<open>Under-extrusion rate\<close>

definition measured_underextrusion_rate :: "CommandedMove option \<Rightarrow> error + real" where
  "measured_underextrusion_rate move =
     (case move of
        None \<Rightarrow> Inr 0
      | Some m \<Rightarrow> ebind (extrusion_rate m) (\<lambda>r. Inr (min 1 (max (- 1) (1 - r)))))"

subsection \<open>The ledger of commanded moves\<close>

function trim_commanded_moves :: "CommandedMove list \<Rightarrow> CommandedMove list" where
  \<comment> \<open>\<open>while len(moves) > 100: moves.pop()\<close>\<close>
  "trim_commanded_moves ms =
     (if length ms > 100 then trim_commanded_moves (butlast ms) else ms)"
  by pat_completeness auto
termination
  by (relation "measure length") auto

declare trim_commanded_moves.simps [simp del]

definition inspect_commanded_move :: "real \<Rightarrow> bool \<Rightarrow> real \<Rightarrow> Sensor \<Rightarrow> Sensor" where
  \<comment> \<open>\<open>is_extruder\<close>: the toolhead's extruder is this sensor's; \<open>e\<close>: the toolhead's
      commanded extruder position.\<close>
  "inspect_commanded_move t is_extruder e s =
     (if \<not> is_extruder then s
      else
        let s1 =
          (if e - last_epos_s s \<noteq> 0
           then
             let (previous_event, ms) =
                   (case commanded_moves s of
                      [] \<Rightarrow> (None, [])
                    | m # rest \<Rightarrow> (last_event m, m\<lparr>ended := True\<rparr> # rest));
                 move = CommandedMove_init t (position_s s)
                          (case previous_event of Some ev \<Rightarrow> epos ev | None \<Rightarrow> last_epos_s s) e
             in s\<lparr>commanded_moves := move # ms, last_epos_s := epos_mv move\<rparr>
           else s)
        in s1\<lparr>commanded_moves := trim_commanded_moves (commanded_moves s1)\<rparr>)"

fun inspect_commanded_moves :: "(real \<times> real) list \<Rightarrow> Sensor \<Rightarrow> Sensor" where
  \<comment> \<open>Successive calls, each with its clock reading and commanded extruder position.\<close>
  "inspect_commanded_moves [] s = s"
| "inspect_commanded_moves ((t, e) # rest) s =
     inspect_commanded_moves rest (inspect_commanded_move t True e s)"

definition ledger_after_insert :: "real \<Rightarrow> real \<Rightarrow> Sensor \<Rightarrow> CommandedMove list" where
  \<comment> \<open>The ledger after the insertion of a new move and before the trimming loop.\<close>
  "ledger_after_insert t e s =
     (case commanded_moves s of
        [] \<Rightarrow> [CommandedMove_init t (position_s s) (last_epos_s s) e]
      | m # rest \<Rightarrow>
          CommandedMove_init t (position_s s)
            (case last_event m of Some ev \<Rightarrow> epos ev | None \<Rightarrow> last_epos_s s) e
          # m\<lparr>ended := True\<rparr> # rest)"

definition move_key :: "CommandedMove \<Rightarrow> real \<times> real" where
  \<comment> \<open>A move is told from the others by its start time and its commanded position.\<close>
  "move_key m = (eventtime_mv m, epos_mv m)"

fun position_changes :: "real \<Rightarrow> real list \<Rightarrow> bool" where
  "position_changes prev [] = True"
| "position_changes prev (e # es) = (e \<noteq> prev \<and> position_changes e es)"

subsection \<open>Under-extrusion and runout\<close>

text \<open>
  \<open>_is_runout_condition\<close>. Its arguments besides the sensor: the arithmetic of doubles
  \<open>fl\<close>; \<open>rate_of\<close>, which stands for \<open>self._measured_underextrusion_rate\<close> as the host
  computes it (\<open>measured_underextrusion_rate\<close> above is that method over the reals, and the
  check only compares its result with the configured maximum); and \<open>now\<close>, the reactor's
  clock, read once for the call.
\<close>

definition is_runout_condition ::
  "float_ops \<Rightarrow> (CommandedMove option \<Rightarrow> error + real) \<Rightarrow> real \<Rightarrow> Sensor
     \<Rightarrow> error + (bool \<times> Sensor)" where
  "is_runout_condition fl rate_of now s =
     ebind (TriggerOnChange_bool (filament_present s)) (\<lambda>present.
       if \<not> present then Inr (True, s)
       else
         ebind (rate_of (status_evaluation_move s)) (\<lambda>rate.
           if rate > underextrusion_max_rate s
           then
             (case underextrusion_start_time s of
                None \<Rightarrow> Inr (False, s\<lparr>underextrusion_start_time := Some now\<rparr>)
              | Some t \<Rightarrow>
                  if float_add fl t (underextrusion_period s) < now
                  then ebind (set_underextruding fl now True s) (\<lambda>s'. Inr (True, s'))
                  else Inr (False, s))
           else if underextrusion_start_time s \<noteq> None
           then ebind (set_underextruding fl now False s) (\<lambda>s'.
                  Inr (False, s'\<lparr>underextrusion_start_time := None\<rparr>))
           else Inr (False, s)))"

subsection \<open>Reading the sensor in one block\<close>

datatype i2c_outcome = I2C_error | I2C_response "byte list"

text \<open>
  What one poll receives from outside the sensor object: the reactor's clock, whether the
  toolhead's extruder is this sensor's, the toolhead's commanded extruder position, the
  outcome of the bus read (a transport exception or the bytes received) and the estimated
  extruder position at that time.
\<close>

record poll =
  reactor_monotonic :: real
  toolhead_is_extruder :: bool
  toolhead_epos :: real
  i2c_read :: i2c_outcome
  extruder_pos :: real

definition i2c_read_reg :: "i2c_outcome \<Rightarrow> Sensor \<Rightarrow> byte list option \<times> Sensor" where
  "i2c_read_reg r s =
     (case r of
        I2C_response bs \<Rightarrow> (Some bs, s)
      | I2C_error \<Rightarrow> (None, emit (Logging_warning Unable_to_read) s))"

definition int32_le :: "byte \<Rightarrow> byte \<Rightarrow> byte \<Rightarrow> byte \<Rightarrow> int" where
  "int32_le b0 b1 b2 b3 =
     sint (word_of_int (uint b0 + 256 * uint b1 + 65536 * uint b2 + 16777216 * uint b3)
             :: 32 word)"

definition unpack_BBll :: "byte list \<Rightarrow> error + (int \<times> int \<times> int \<times> int)" where
  \<comment> \<open>\<open>struct.unpack('<BBll', data)\<close>\<close>
  "unpack_BBll d =
     (if length d = 10
      then Inr (uint (d ! 0), uint (d ! 1),
                int32_le (d ! 2) (d ! 3) (d ! 4) (d ! 5),
                int32_le (d ! 6) (d ! 7) (d ! 8) (d ! 9))
      else Inl StructError)"

definition record_sensor_event :: "real \<Rightarrow> real \<Rightarrow> real \<Rightarrow> Sensor \<Rightarrow> Sensor" where
  \<comment> \<open>The end of \<open>_update_state_from_sensor\<close>: the reading goes to the newest move, if open.\<close>
  "record_sensor_event t delta ep s =
     (case commanded_moves s of
        [] \<Rightarrow> s
      | m # rest \<Rightarrow>
          if \<not> ended m
          then s\<lparr>commanded_moves :=
                   add_sensor_event (SensorEvent_init t (position_s s) delta ep)
                     (capture_history s) m # rest\<rparr>
          else s)"

definition update_state_from_sensor :: "poll \<Rightarrow> Sensor \<Rightarrow> error + Sensor" where
  \<comment> \<open>The branch of the block-read strategy (\<open>self.uart\<close> is not set).\<close>
  "update_state_from_sensor p s =
     (let t = reactor_monotonic p;
          s0 = inspect_commanded_move t (toolhead_is_extruder p) (toolhead_epos p) s;
          (data, s1) = i2c_read_reg (i2c_read p) s0
      in if (case data of None \<Rightarrow> True | Some d \<Rightarrow> d = [] \<or> length d \<noteq> 10)
         then
           ebind (set_sensor_connected False s1) (\<lambda>s2.
             case data of
               None \<Rightarrow> Inl TypeError
             | Some d \<Rightarrow>
                 Inr (emit (Logging_warning (Update_from_sensor_failed (length d) d)) s2))
         else
           ebind (unpack_BBll (case data of Some d \<Rightarrow> d | None \<Rightarrow> []))
             (\<lambda>(magnet, presence, full_turns, angle).
           ebind (set_sensor_connected (magnet \<noteq> 255) s1) (\<lambda>s2.
           ebind (TriggerOnChange_bool (sensor_connected s2)) (\<lambda>connected.
             if \<not> connected then Inr s2
             else
               ebind (set_filament_present (presence = 1) (s2\<lparr>magnet_state := magnet\<rparr>)) (\<lambda>s3.
                 let h = update_raw full_turns angle (rotation_helper s3);
                     inv' = (if invert_direction s3 then - 1 else 1)
                 in ebind (absolute_angular_position h) (\<lambda>deg.
                      let new_position = rotation_distance s3 * (deg * inv') / 360;
                          delta = new_position - position_s s3
                      in Inr (record_sensor_event t delta (extruder_pos p)
                                (s3\<lparr>rotation_helper := h, position_s := new_position\<rparr>))))))))"

section \<open>SensorUART\<close>

fun pack_bits :: "int \<Rightarrow> nat \<Rightarrow> byte list \<Rightarrow> int" where
  \<comment> \<open>\<open>for d in data: mval |= d << pos; pos += 8\<close>\<close>
  "pack_bits mval p [] = mval"
| "pack_bits mval p (d # ds) = pack_bits (mval OR push_bit p (uint d)) (p + 8) ds"

definition remove_serial_bits :: "byte list \<Rightarrow> byte list" where
  "remove_serial_bits data =
     (let mval = pack_bits 0 0 data
      in map (\<lambda>i. word_of_int (drop_bit (i * 10 + 1) mval AND 255))
           [0 ..< (length data * 8) div 10])"

text \<open>
  \<open>_decode_read\<close> returns the payload or \<open>None\<close>, and logs a warning on two of its
  rejections. The CRC routine \<open>_calc_crc8\<close> is inherited from the TMC UART class of the
  host, which is not part of this module: it is the parameter \<open>crc8\<close>.
\<close>

definition decode_read ::
  "(byte list \<Rightarrow> int) \<Rightarrow> int \<Rightarrow> byte list \<Rightarrow> byte list option \<times> notice list" where
  "decode_read crc8 reg data =
     (let decoded = remove_serial_bits data
      in if length decoded < 5 then (None, [])
         else if uint (last decoded) \<noteq> crc8 (butlast decoded) then (None, [])
         else if decoded ! 0 \<noteq> 5 \<and> decoded ! 1 \<noteq> 255
           then (None, [Logging_warning (Received_wrong_message_prefix decoded)])
         else if uint (decoded ! 2) \<noteq> reg
           then (None, [Logging_warning (Received_response_for_reg (uint (decoded ! 2)) reg)])
         else (Some (butlast (drop 3 decoded)), []))"

text \<open>
  Modelled from the spec: the CRC-8 of the inherited transport class, which is missing
  from the sources. The spec calls it a polynomial CRC-8 over all bytes before the last;
  this is the CRC-8 with polynomial \<open>0x07\<close> and initial value 0 that consumes each byte
  from its least significant bit, as TMC UART frames use.
\<close>

definition crc8_shift :: "byte \<Rightarrow> bool \<Rightarrow> byte" where
  \<comment> \<open>One step of the shift register on the input bit \<open>x\<close>.\<close>
  "crc8_shift crc x = (if bit crc 7 \<noteq> x then push_bit 1 crc XOR 7 else push_bit 1 crc)"

fun crc8_bits :: "nat \<Rightarrow> byte \<Rightarrow> byte \<Rightarrow> byte" where
  "crc8_bits 0 crc b = crc"
| "crc8_bits (Suc n) crc b = crc8_bits n (crc8_shift crc (bit b 0)) (drop_bit 1 b)"

fun crc8_from :: "byte \<Rightarrow> byte list \<Rightarrow> byte" where
  "crc8_from crc [] = crc"
| "crc8_from crc (b # bs) = crc8_from (crc8_bits 8 crc b) bs"

definition calc_crc8 :: "byte list \<Rightarrow> int" where
  "calc_crc8 data = uint (crc8_from 0 data)"

definition detects_single_byte :: "(byte list \<Rightarrow> int) \<Rightarrow> bool" where
  \<comment> \<open>The checksum changes whenever exactly one byte of its input changes.\<close>
  "detects_single_byte crc8 =
     (\<forall>xs i b. i < length xs \<and> b \<noteq> xs ! i \<longrightarrow> crc8 (xs[i := b]) \<noteq> crc8 xs)"

section \<open>Example inputs\<close>

definition example_sensor :: Sensor where
  \<comment> \<open>A sensor as constructed: 22 mm per turn, maximum rate 0.1, dwell period 2 s,
      3 hysteresis bits.\<close>
  "example_sensor = HighResolutionFilamentSensor_init False 22 (1 / 10) 2 3"

definition example_move :: "real \<Rightarrow> real \<Rightarrow> CommandedMove" where
  \<comment> \<open>A move commanded from extruder position 0 to \<open>expected\<close>, with one reading at its
      start and one, a second later, when the filament has moved by \<open>measured\<close>.\<close>
  "example_move expected measured =
     add_sensor_event (SensorEvent_init 1 measured measured expected) False
       (add_sensor_event (SensorEvent_init 0 0 0 0) False (CommandedMove_init 0 0 0 expected))"

definition underextruding_sensor :: "real \<Rightarrow> real option \<Rightarrow> Sensor" where
  \<comment> \<open>Filament present, 5 mm expected, \<open>measured\<close> mm seen, the timer at \<open>start\<close>.\<close>
  "underextruding_sensor measured start =
     example_sensor
       \<lparr> underextrusion_start_time := start,
         status_evaluation_move := Some (example_move 5 measured),
         filament_present := Some True \<rparr>"

definition exact_float_ops :: float_ops where
  \<comment> \<open>Sum and difference without rounding: what doubles compute where the exact result
      is a double, as it is for the small integers of the examples (10 + 2 is 12).\<close>
  "exact_float_ops = \<lparr> float_add = (+), float_sub = (-) \<rparr>"

definition example_poll :: poll where
  "example_poll =
     \<lparr> reactor_monotonic = 1, toolhead_is_extruder = True, toolhead_epos = 0,
       i2c_read = I2C_error, extruder_pos = 0 \<rparr>"

definition example_inputs :: "nat \<Rightarrow> (real \<times> real) list" where
  \<comment> \<open>\<open>n\<close> polls 0.1 s apart, the commanded position one millimetre further each time.\<close>
  "example_inputs n = map (\<lambda>i. (real i / 10, real i + 1)) [0 ..< n]"

section \<open>Properties of the rotation helper\<close>

text \<open>
  C2. The claim: for every turn count and every two raw angle readings that differ only
  in their lowest \<open>ignore_bits\<close> bits, the absolute angular position in degrees is the
  same. The code fails it: the turn count is multiplied by \<open>2^12 - 1 = 4095\<close>, an odd
  number, before the low bits of the sum are masked. With 3 ignored bits and one full
  turn, the readings 0 and 1 (equal above bit 2) give the masked positions 4088 and 4096,
  hence different angles.
\<close>

theorem absolute_angular_position_low_bits_at_turn_one:
  "drop_bit (ignore_bits (SensorRotationHelper_init 12 3)) (0 :: int)
     = drop_bit (ignore_bits (SensorRotationHelper_init 12 3)) 1
   \<and> absolute_angular_position (update_raw 1 0 (SensorRotationHelper_init 12 3))
       = Inr (4088 / 4095 * 360)
   \<and> absolute_angular_position (update_raw 1 1 (SensorRotationHelper_init 12 3))
       = Inr (4096 / 4095 * 360)
   \<and> absolute_angular_position (update_raw 1 0 (SensorRotationHelper_init 12 3))
       \<noteq> absolute_angular_position (update_raw 1 1 (SensorRotationHelper_init 12 3))"
  by (simp add: absolute_angular_position_def update_raw_def SensorRotationHelper_init_def
        py_truediv_def)

text \<open>
  Where the claim does hold: when \<open>2 ^ ignore_bits\<close> divides the turn count (no turn at
  all, or no ignored bit), readings that agree above the ignored bits give one position.
\<close>

lemma and_not_mask_int: "(a :: int) AND NOT (mask n) = push_bit n (drop_bit n a)"
  by (rule bit_eqI) (auto simp add: bit_simps)

lemma drop_bit_add_multiple:
  "2 ^ n dvd t \<Longrightarrow> drop_bit n (t + (a :: int)) = t div 2 ^ n + drop_bit n a"
  using drop_bit_int_def div_dvd_div by auto

lemma masked_sum_low_bits:
  assumes "2 ^ n dvd (t :: int)" and "drop_bit n a1 = drop_bit n (a2 :: int)"
  shows "(t + a1) AND NOT (mask n) = (t + a2) AND NOT (mask n)"
  using assms by (simp add: and_not_mask_int drop_bit_add_multiple)

lemma absolute_angular_position_low_bits_multiple_turns:
  assumes "2 ^ ign dvd t" and "drop_bit ign a1 = drop_bit ign a2"
  shows "absolute_angular_position (update_raw t a1 (SensorRotationHelper_init res ign))
           = absolute_angular_position (update_raw t a2 (SensorRotationHelper_init res ign))"
proof -
  have "2 ^ ign dvd t * (push_bit res 1 - 1)"
    using assms(1) by simp
  from masked_sum_low_bits [OF this assms(2)] show ?thesis
    by (simp add: absolute_angular_position_def update_raw_def SensorRotationHelper_init_def
          mask_eq_exp_minus_1 push_bit_eq_mult)
qed

section \<open>Properties of a commanded move\<close>

text \<open>
  C10. Neither \<open>speed\<close> nor \<open>extrusion_rate\<close> raises ZeroDivisionError, whatever the
  fields of the move are. \<open>speed\<close> returns \<open>None\<close> when the move has no motion event and
  when its first and last motion events have the same time; \<open>extrusion_rate\<close> returns 0
  when the expected distance is \<open>None\<close> and when it is 0.
\<close>

theorem metrics_never_divide_by_zero:
  "speed m \<noteq> Inl ZeroDivisionError
   \<and> extrusion_rate m \<noteq> Inl ZeroDivisionError
   \<and> (last_motion_event m = None \<longrightarrow> speed m = Inr None)
   \<and> (first_motion_event m = Some f \<and> last_motion_event m = Some l
        \<and> eventtime f = eventtime l \<longrightarrow> speed m = Inr None)
   \<and> (expected_distance m = None \<or> expected_distance m = Some 0 \<longrightarrow> extrusion_rate m = Inr 0)"
  by (auto simp add: speed_def extrusion_rate_def duration_def measured_distance_def ebind_def
        py_truediv_def last_motion_eventtime_def first_motion_eventtime_def
        split: option.splits sum.splits)

theorem metrics_never_divide_by_zero_witness:
  "speed (CommandedMove_init 0 0 0 10) = Inr None
   \<and> extrusion_rate (CommandedMove_init 0 0 0 10) = Inr 0
   \<and> speed (example_move 10 2) = Inr None
   \<and> extrusion_rate (example_move 0 2) = Inr 0
   \<and> speed (example_move 10 2) \<noteq> Inl ZeroDivisionError
   \<and> extrusion_rate (example_move 10 2) \<noteq> Inl ZeroDivisionError"
  using metrics_never_divide_by_zero [of "CommandedMove_init 0 0 0 10"]
    metrics_never_divide_by_zero [of "example_move 10 2"
      "SensorEvent_init 1 2 2 10" "SensorEvent_init 1 2 2 10"]
    metrics_never_divide_by_zero [of "example_move 0 2"]
  by (simp add: example_move_def add_sensor_event_def SensorEvent_init_def
        CommandedMove_init_def expected_distance_def)

text \<open>
  C4. For a move with expected distance \<open>d \<noteq> 0\<close> and measured distance \<open>md\<close> the
  under-extrusion rate is \<open>min 1 (max (-1) (1 - md / d))\<close>, and it is 0 for no move.
  With 10 mm expected: 2 mm measured gives 0.8, -5 mm gives 1 (clamped from 1.5),
  15 mm gives -0.5.
\<close>

theorem measured_underextrusion_rate_clamped:
  "measured_underextrusion_rate None = Inr 0
   \<and> (expected_distance m = Some d \<and> d \<noteq> 0 \<and> measured_distance m = Inr md \<longrightarrow>
        measured_underextrusion_rate (Some m) = Inr (min 1 (max (- 1) (1 - md / d))))
   \<and> (expected_distance m = Some 10 \<and> measured_distance m = Inr 2 \<longrightarrow>
        measured_underextrusion_rate (Some m) = Inr (8 / 10))
   \<and> (expected_distance m = Some 10 \<and> measured_distance m = Inr (- 5) \<longrightarrow>
        measured_underextrusion_rate (Some m) = Inr 1)
   \<and> (expected_distance m = Some 10 \<and> measured_distance m = Inr 15 \<longrightarrow>
        measured_underextrusion_rate (Some m) = Inr (- (5 / 10)))"
  by (simp add: measured_underextrusion_rate_def extrusion_rate_def ebind_def py_truediv_def)

theorem measured_underextrusion_rate_clamped_witness:
  "measured_underextrusion_rate (Some (example_move 10 2)) = Inr (8 / 10)
   \<and> measured_underextrusion_rate (Some (example_move 10 (- 5))) = Inr 1
   \<and> measured_underextrusion_rate (Some (example_move 10 15)) = Inr (- (5 / 10))
   \<and> measured_underextrusion_rate (Some (example_move 4 1)) = Inr (min 1 (max (- 1) (1 - 1 / 4)))"
  using measured_underextrusion_rate_clamped [of "example_move 10 2"]
    measured_underextrusion_rate_clamped [of "example_move 10 (- 5)"]
    measured_underextrusion_rate_clamped [of "example_move 10 15"]
    measured_underextrusion_rate_clamped [of "example_move 4 1" 4 1]
  by (simp add: example_move_def add_sensor_event_def SensorEvent_init_def
        CommandedMove_init_def expected_distance_def measured_distance_def)

section \<open>Properties of the trigger\<close>

text \<open>
  C7. A trigger that holds \<open>False\<close> and is set to True, True, False, False, True calls
  its callback three times: with new value True, then False, then True. This holds for
  the callback that records its calls and for every callback that does not raise; a
  \<open>set\<close> with the value already stored calls nothing.
\<close>

theorem TriggerOnChange_once_per_transition:
  "TriggerOnChange_set_all record_call (Some False) [True, True, False, False, True] []
     = Inr (Some True, [(Some False, True), (Some True, False), (Some False, True)])
   \<and> TriggerOnChange_set_all (\<lambda>old new w. Inr (f old new w)) (Some False)
         [True, True, False, False, True] w
       = Inr (Some True, f (Some False) True (f (Some True) False (f (Some False) True w)))
   \<and> TriggerOnChange_set fn (Some v) v w = Inr (Some v, w)"
  by (simp add: TriggerOnChange_set_def record_call_def ebind_def)

text \<open>
  C8. The triggers that start unset are \<open>sensor_connected\<close> and \<open>filament_present\<close>.
  Their first \<open>set\<close> does call the callback, which writes a line to the log and returns
  before it responds on the console: the stored value becomes the new one and nothing
  user-visible is added.
\<close>

theorem unset_transition_not_user_visible:
  "TriggerOnChange_set fn None v w = ebind (fn None v w) (\<lambda>w'. Inr (Some v, w'))
   \<and> (sensor_connected s = None \<longrightarrow>
        (\<exists>s'. set_sensor_connected v s = Inr s' \<and> sensor_connected s' = Some v
           \<and> filter user_visible (outputs s') = filter user_visible (outputs s)))
   \<and> (filament_present s = None \<longrightarrow>
        (\<exists>s'. set_filament_present v s = Inr s' \<and> filament_present s' = Some v
           \<and> filter user_visible (outputs s') = filter user_visible (outputs s)))"
  by (simp add: set_sensor_connected_def set_filament_present_def TriggerOnChange_set_def
        sensor_connected_changed_def filament_present_changed_def ebind_def emit_def)

theorem unset_transition_not_user_visible_witness:
  "(\<exists>s'. set_sensor_connected False example_sensor = Inr s' \<and> sensor_connected s' = Some False
      \<and> filter user_visible (outputs s') = filter user_visible (outputs example_sensor))
   \<and> (\<exists>s'. set_filament_present True example_sensor = Inr s' \<and> filament_present s' = Some True
      \<and> filter user_visible (outputs s') = filter user_visible (outputs example_sensor))"
  using unset_transition_not_user_visible
      [of sensor_connected_changed False example_sensor example_sensor]
    unset_transition_not_user_visible
      [of filament_present_changed True example_sensor example_sensor]
  by (simp add: example_sensor_def HighResolutionFilamentSensor_init_def)

section \<open>Properties of the ledger\<close>

lemma trim_commanded_moves_take: "trim_commanded_moves ms = take 100 ms"
proof (induction ms rule: trim_commanded_moves.induct)
  case (1 ms)
  show ?case
  proof (cases "length ms > 100")
    case True
    with 1 have "trim_commanded_moves (butlast ms) = take 100 (butlast ms)"
      by simp
    moreover have "take 100 (butlast ms) = take 100 ms"
      using True by (auto simp add: butlast_conv_take min_def)
    ultimately show ?thesis
      using True by (subst trim_commanded_moves.simps) simp
  next
    case False
    then show ?thesis
      by (subst trim_commanded_moves.simps) simp
  qed
qed

lemma commanded_moves_inspect:
  "commanded_moves (inspect_commanded_move t True e s) =
     take 100 (if e \<noteq> last_epos_s s then ledger_after_insert t e s else commanded_moves s)"
  by (simp add: inspect_commanded_move_def ledger_after_insert_def trim_commanded_moves_take
        Let_def CommandedMove_init_def split: list.splits)

lemma last_epos_inspect: "last_epos_s (inspect_commanded_move t True e s) = e"
  by (simp add: inspect_commanded_move_def Let_def CommandedMove_init_def split: list.splits)

lemma length_inspect:
  assumes "length (commanded_moves s) \<le> 100"
  shows "length (commanded_moves (inspect_commanded_move t b e s)) \<le> 100"
proof (cases b)
  case True
  then show ?thesis by (simp add: commanded_moves_inspect)
next
  case False
  with assms show ?thesis by (simp add: inspect_commanded_move_def)
qed

lemma keys_ledger_after_insert:
  "map move_key (ledger_after_insert t e s) = (t, e) # map move_key (commanded_moves s)"
  by (simp add: ledger_after_insert_def move_key_def CommandedMove_init_def split: list.splits)

lemma take_append_take: "take n (xs @ take n ys) = take n (xs @ ys)"
  by (induction xs arbitrary: n) (auto simp: take_Cons split: nat.splits)

lemma keys_inspect_commanded_moves:
  assumes "length (commanded_moves s) \<le> 100"
    and "position_changes (last_epos_s s) (map snd inputs)"
  shows "map move_key (commanded_moves (inspect_commanded_moves inputs s))
           = take 100 (rev inputs @ map move_key (commanded_moves s))"
  using assms
proof (induction inputs arbitrary: s)
  case Nil
  then show ?case by simp
next
  case (Cons x rest)
  obtain t e where x: "x = (t, e)" by (cases x)
  let ?s1 = "inspect_commanded_move t True e s"
  from Cons.prems x have ne: "e \<noteq> last_epos_s s"
    and pc: "position_changes e (map snd rest)"
    by simp_all
  have "map move_key (commanded_moves ?s1) = map move_key (take 100 (ledger_after_insert t e s))"
    using ne by (simp add: commanded_moves_inspect)
  also have "\<dots> = take 100 (map move_key (ledger_after_insert t e s))"
    by (rule take_map [symmetric])
  finally have k1: "map move_key (commanded_moves ?s1)
                      = take 100 ((t, e) # map move_key (commanded_moves s))"
    by (simp only: keys_ledger_after_insert)
  have len: "length (commanded_moves ?s1) \<le> 100"
    using Cons.prems(1) by (rule length_inspect)
  have "position_changes (last_epos_s ?s1) (map snd rest)"
    using pc by (simp add: last_epos_inspect)
  from Cons.IH [OF len this]
  have "map move_key (commanded_moves (inspect_commanded_moves rest ?s1))
          = take 100 (rev rest @ take 100 ((t, e) # map move_key (commanded_moves s)))"
    by (simp only: k1)
  then have "map move_key (commanded_moves (inspect_commanded_moves rest ?s1))
          = take 100 (rev rest @ ((t, e) # map move_key (commanded_moves s)))"
    by (simp only: take_append_take)
  then show ?case
    by (simp only: x inspect_commanded_moves.simps rev.simps append_assoc append_Cons append_Nil)
qed

lemma position_changes_upt:
  "position_changes prev (map (\<lambda>i. real i + 1) [k ..< n]) = (k < n \<longrightarrow> prev \<noteq> real k + 1)"
proof (induction "n - k" arbitrary: k prev)
  case 0
  then show ?case by simp
next
  case (Suc d)
  then have "k < n" by simp
  then have "[k ..< n] = k # [Suc k ..< n]"
    by (simp add: upt_conv_Cons)
  moreover have "position_changes (real k + 1) (map (\<lambda>i. real i + 1) [Suc k ..< n])
                   = (Suc k < n \<longrightarrow> real k + 1 \<noteq> real (Suc k) + 1)"
    using Suc by (intro Suc.hyps(1)) simp
  ultimately show ?case
    using \<open>k < n\<close> by auto
qed

text \<open>
  C9. A ledger of at most 100 moves has at most 100 moves after a call of
  \<open>_inspect_commanded_move\<close>. When the toolhead's extruder is the sensor's, the ledger
  after the call is the first 100 moves of the newest-first list: the oldest are dropped.
  From an empty ledger, calls that each change the commanded position leave the newest
  100 of the inserted moves, newest first; after 105 of them exactly 100 are left and the
  5 oldest are gone.
\<close>

theorem ledger_holds_newest_100:
  "(length (commanded_moves s) \<le> 100 \<longrightarrow>
      length (commanded_moves (inspect_commanded_move t b e s)) \<le> 100)
   \<and> commanded_moves (inspect_commanded_move t True e s)
       = take 100 (if e \<noteq> last_epos_s s then ledger_after_insert t e s else commanded_moves s)
   \<and> (commanded_moves s = [] \<and> position_changes (last_epos_s s) (map snd inputs) \<longrightarrow>
        map move_key (commanded_moves (inspect_commanded_moves inputs s)) = take 100 (rev inputs))
   \<and> (commanded_moves s = [] \<and> position_changes (last_epos_s s) (map snd inputs)
        \<and> length inputs = 105 \<longrightarrow>
        length (commanded_moves (inspect_commanded_moves inputs s)) = 100
        \<and> map move_key (commanded_moves (inspect_commanded_moves inputs s))
            = rev (drop 5 inputs))"
proof -
  have bound: "length (commanded_moves s) \<le> 100 \<longrightarrow>
      length (commanded_moves (inspect_commanded_move t b e s)) \<le> 100"
    by (simp add: length_inspect)
  have keys: "map move_key (commanded_moves (inspect_commanded_moves inputs s))
                = take 100 (rev inputs)"
    if "commanded_moves s = [] \<and> position_changes (last_epos_s s) (map snd inputs)"
    using that keys_inspect_commanded_moves [of s inputs] by simp
  have full: "length (commanded_moves (inspect_commanded_moves inputs s)) = 100
      \<and> map move_key (commanded_moves (inspect_commanded_moves inputs s)) = rev (drop 5 inputs)"
    if a: "commanded_moves s = [] \<and> position_changes (last_epos_s s) (map snd inputs)
           \<and> length inputs = 105"
  proof -
    from a have k: "map move_key (commanded_moves (inspect_commanded_moves inputs s))
                      = take 100 (rev inputs)"
      by (simp add: keys)
    have "take 100 (rev inputs) = rev (drop 5 inputs)"
      using a by (simp add: take_rev)
    moreover have "length (commanded_moves (inspect_commanded_moves inputs s)) = 100"
    proof -
      have "length (commanded_moves (inspect_commanded_moves inputs s))
              = length (map move_key (commanded_moves (inspect_commanded_moves inputs s)))"
        by simp
      also have "\<dots> = length (take 100 (rev inputs))"
        by (simp only: k)
      also have "\<dots> = 100"
        using a by simp
      finally show ?thesis .
    qed
    ultimately show ?thesis
      using k by simp
  qed
  show ?thesis
  proof (intro conjI)
    show "length (commanded_moves s) \<le> 100 \<longrightarrow>
      length (commanded_moves (inspect_commanded_move t b e s)) \<le> 100"
      by (rule bound)
    show "commanded_moves (inspect_commanded_move t True e s)
       = take 100 (if e \<noteq> last_epos_s s then ledger_after_insert t e s else commanded_moves s)"
      by (rule commanded_moves_inspect)
    show "commanded_moves s = [] \<and> position_changes (last_epos_s s) (map snd inputs) \<longrightarrow>
        map move_key (commanded_moves (inspect_commanded_moves inputs s)) = take 100 (rev inputs)"
      using keys by blast
    show "commanded_moves s = [] \<and> position_changes (last_epos_s s) (map snd inputs)
        \<and> length inputs = 105 \<longrightarrow>
        length (commanded_moves (inspect_commanded_moves inputs s)) = 100
        \<and> map move_key (commanded_moves (inspect_commanded_moves inputs s))
            = rev (drop 5 inputs)"
      using full by blast
  qed
qed

theorem ledger_holds_newest_100_witness:
  "length (commanded_moves (inspect_commanded_move 0 True 1 example_sensor)) \<le> 100
   \<and> map move_key (commanded_moves (inspect_commanded_moves (example_inputs 105) example_sensor))
       = take 100 (rev (example_inputs 105))
   \<and> length (commanded_moves (inspect_commanded_moves (example_inputs 105) example_sensor)) = 100
   \<and> map move_key (commanded_moves (inspect_commanded_moves (example_inputs 105) example_sensor))
       = rev (drop 5 (example_inputs 105))"
proof -
  have empty: "commanded_moves example_sensor = []"
    by (simp add: example_sensor_def HighResolutionFilamentSensor_init_def)
  have changes: "position_changes (last_epos_s example_sensor) (map snd (example_inputs 105))"
    by (simp add: example_sensor_def HighResolutionFilamentSensor_init_def example_inputs_def
          position_changes_upt o_def)
  have len: "length (example_inputs 105) = 105"
    by (simp add: example_inputs_def)
  have bounded: "length (commanded_moves example_sensor) \<le> 100"
    by (simp add: empty)
  show ?thesis
    using ledger_holds_newest_100 [of example_sensor 0 True 1 "example_inputs 105"]
      empty changes len bounded
    by blast
qed

section \<open>Properties of the runout check\<close>

text \<open>
  C5, as the code has it. With filament present and a rate above the maximum: when no
  start time is recorded, the call records the clock and returns False; when one is
  recorded and the sum of start and period, as the host adds the two doubles, is less than
  the clock, the call sets the under-extruding flag and returns True; when the clock is at
  or before that sum, it returns False and changes nothing. With a rate at or under the
  maximum: when a start time is recorded, the call clears it, sets the flag False and
  returns False; when none is recorded, it returns False and changes nothing. This holds
  for every rounding of the sum and for whatever rate the host computes.
\<close>

theorem runout_after_dwell_period:
  "filament_present s = Some True \<and> rate_of (status_evaluation_move s) = Inr r \<longrightarrow>
     (r > underextrusion_max_rate s \<and> underextrusion_start_time s = None \<longrightarrow>
        is_runout_condition fl rate_of now s
          = Inr (False, s\<lparr>underextrusion_start_time := Some now\<rparr>))
     \<and> (r > underextrusion_max_rate s \<and> underextrusion_start_time s = Some t
          \<and> float_add fl t (underextrusion_period s) < now \<longrightarrow>
          (\<exists>s'. is_runout_condition fl rate_of now s = Inr (True, s')
             \<and> underextruding s' = Some True \<and> underextrusion_start_time s' = Some t))
     \<and> (r > underextrusion_max_rate s \<and> underextrusion_start_time s = Some t
          \<and> now \<le> float_add fl t (underextrusion_period s) \<longrightarrow>
          is_runout_condition fl rate_of now s = Inr (False, s))
     \<and> (r \<le> underextrusion_max_rate s \<and> underextrusion_start_time s = Some t \<longrightarrow>
          (\<exists>s'. is_runout_condition fl rate_of now s = Inr (False, s')
             \<and> underextruding s' = Some False \<and> underextrusion_start_time s' = None))
     \<and> (r \<le> underextrusion_max_rate s \<and> underextrusion_start_time s = None \<longrightarrow>
          is_runout_condition fl rate_of now s = Inr (False, s))"
  by (auto simp add: is_runout_condition_def ebind_def TriggerOnChange_bool_def
        set_underextruding_def TriggerOnChange_set_def underextruding_changed_def
        respond_error_def respond_info_def emit_def Let_def)

lemma rate_underextruding_sensor:
  "measured_underextrusion_rate (status_evaluation_move (underextruding_sensor m start))
     = Inr (min 1 (max (- 1) (1 - m / 5)))"
  by (simp add: underextruding_sensor_def example_move_def add_sensor_event_def
        SensorEvent_init_def CommandedMove_init_def measured_underextrusion_rate_def
        extrusion_rate_def expected_distance_def measured_distance_def ebind_def py_truediv_def
        Let_def)

lemma fields_underextruding_sensor:
  "filament_present (underextruding_sensor m start) = Some True"
  "underextrusion_start_time (underextruding_sensor m start) = start"
  "underextrusion_max_rate (underextruding_sensor m start) = 1 / 10"
  "underextrusion_period (underextruding_sensor m start) = 2"
  "underextruding (underextruding_sensor m start) = Some False"
  by (simp_all add: underextruding_sensor_def example_sensor_def
        HighResolutionFilamentSensor_init_def)

lemma float_add_exact: "float_add exact_float_ops x y = x + y"
  by (simp add: exact_float_ops_def)

theorem runout_after_dwell_period_witness:
  "is_runout_condition exact_float_ops measured_underextrusion_rate 10
       (underextruding_sensor 0 None)
     = Inr (False, (underextruding_sensor 0 None)\<lparr>underextrusion_start_time := Some 10\<rparr>)
   \<and> (\<exists>s'. is_runout_condition exact_float_ops measured_underextrusion_rate 13
               (underextruding_sensor 0 (Some 10)) = Inr (True, s')
         \<and> underextruding s' = Some True \<and> underextrusion_start_time s' = Some 10)
   \<and> is_runout_condition exact_float_ops measured_underextrusion_rate 11
         (underextruding_sensor 0 (Some 10))
       = Inr (False, underextruding_sensor 0 (Some 10))
   \<and> (\<exists>s'. is_runout_condition exact_float_ops measured_underextrusion_rate 13
               (underextruding_sensor 5 (Some 10)) = Inr (False, s')
         \<and> underextruding s' = Some False \<and> underextrusion_start_time s' = None)
   \<and> is_runout_condition exact_float_ops measured_underextrusion_rate 13
         (underextruding_sensor 5 None)
       = Inr (False, underextruding_sensor 5 None)"
  using
    runout_after_dwell_period
      [where s = "underextruding_sensor 0 None" and r = 1 and now = 10 and t = 0
         and fl = exact_float_ops and rate_of = measured_underextrusion_rate]
    runout_after_dwell_period
      [where s = "underextruding_sensor 0 (Some 10)" and r = 1 and now = 13 and t = 10
         and fl = exact_float_ops and rate_of = measured_underextrusion_rate]
    runout_after_dwell_period
      [where s = "underextruding_sensor 0 (Some 10)" and r = 1 and now = 11 and t = 10
         and fl = exact_float_ops and rate_of = measured_underextrusion_rate]
    runout_after_dwell_period
      [where s = "underextruding_sensor 5 (Some 10)" and r = 0 and now = 13 and t = 10
         and fl = exact_float_ops and rate_of = measured_underextrusion_rate]
    runout_after_dwell_period
      [where s = "underextruding_sensor 5 None" and r = 0 and now = 13 and t = 10
         and fl = exact_float_ops and rate_of = measured_underextrusion_rate]
  by (simp add: rate_underextruding_sensor fields_underextruding_sensor float_add_exact)

text \<open>
  The claim as stated, with "once the elapsed time reaches the period", fails at the
  boundary: at start 10, period 2 and clock 12 the elapsed time equals the period (the
  doubles 10 and 2 add to 12 without rounding), the rate 1 is above the maximum 0.1, and
  the call returns False with the state unchanged.
\<close>

theorem runout_at_exact_period_counterexample:
  "filament_present (underextruding_sensor 0 (Some 10)) = Some True
   \<and> measured_underextrusion_rate (status_evaluation_move (underextruding_sensor 0 (Some 10)))
       = Inr 1
   \<and> 1 > underextrusion_max_rate (underextruding_sensor 0 (Some 10))
   \<and> underextrusion_start_time (underextruding_sensor 0 (Some 10)) = Some 10
   \<and> float_sub exact_float_ops 12 10 \<ge> underextrusion_period (underextruding_sensor 0 (Some 10))
   \<and> float_add exact_float_ops 10 (underextrusion_period (underextruding_sensor 0 (Some 10)))
       = 12
   \<and> is_runout_condition exact_float_ops measured_underextrusion_rate 12
         (underextruding_sensor 0 (Some 10))
       = Inr (False, underextruding_sensor 0 (Some 10))"
  by (simp add: is_runout_condition_def rate_underextruding_sensor
        fields_underextruding_sensor ebind_def TriggerOnChange_bool_def exact_float_ops_def)

section \<open>Properties of the block read\<close>

text \<open>
  C1. The claim: when the bus read raises a transport error, the update marks the sensor
  as not connected, logs the bytes and returns. The code does not return: the log line
  takes the length of the data, which is \<open>None\<close> then, and that raises a TypeError.
\<close>

theorem update_state_from_sensor_raises_on_transport_error:
  "update_state_from_sensor (p\<lparr>i2c_read := I2C_error\<rparr>) s = Inl TypeError"
  by (simp add: update_state_from_sensor_def i2c_read_reg_def Let_def ebind_def
        set_sensor_connected_def TriggerOnChange_set_def sensor_connected_changed_def
        split: prod.splits)

lemma update_state_from_sensor_wrong_length:
  assumes "length d \<noteq> 10"
  shows "\<exists>s'. update_state_from_sensor (p\<lparr>i2c_read := I2C_response d\<rparr>) s = Inr s'
           \<and> sensor_connected s' = Some False
           \<and> last (outputs s') = Logging_warning (Update_from_sensor_failed (length d) d)"
  using assms
  by (auto simp add: update_state_from_sensor_def i2c_read_reg_def Let_def ebind_def
        set_sensor_connected_def TriggerOnChange_set_def sensor_connected_changed_def
        respond_error_def respond_info_def emit_def split: prod.splits)

lemma update_state_from_sensor_example:
  "update_state_from_sensor example_poll example_sensor = Inl TypeError"
  by (simp add: example_poll_def update_state_from_sensor_def i2c_read_reg_def Let_def ebind_def
        set_sensor_connected_def TriggerOnChange_set_def sensor_connected_changed_def
        split: prod.splits)

section \<open>The modelled CRC-8 tells frames apart that differ in one byte\<close>

lemma crc8_shift_xor:
  "crc8_shift c x XOR crc8_shift c' x' = crc8_shift (c XOR c') (x \<noteq> x')"
  by (rule bit_word_eqI) (auto simp add: crc8_shift_def bit_simps)

lemma crc8_bits_xor:
  "crc8_bits n c b XOR crc8_bits n c' b' = crc8_bits n (c XOR c') (b XOR b')"
proof (induction n arbitrary: c c' b b')
  case 0
  show ?case by simp
next
  case (Suc n)
  have "bit (b XOR b') 0 = (bit b 0 \<noteq> bit b' 0)"
    by (simp add: bit_xor_iff)
  then show ?case
    by (simp add: Suc crc8_shift_xor)
qed

lemma bit_push_bit_1_byte:
  fixes d :: byte
  assumes "Suc i < 8"
  shows "bit (push_bit 1 d) (Suc i) = bit d i"
  using assms by (simp only: bit_push_bit_iff) simp

lemma crc8_shift_low_zero:
  assumes "k \<le> 7" and "\<forall>i<Suc k. \<not> bit (crc8_shift d y) i"
  shows "y = bit d 7 \<and> crc8_shift d y = push_bit 1 d \<and> (\<forall>i<k. \<not> bit d i)"
proof -
  from assms(2) have "\<not> bit (crc8_shift d y) 0" by simp
  then have y: "y = bit d 7"
    by (auto simp add: crc8_shift_def bit_simps bit_0 even_xor_iff split: if_splits)
  then have eq: "crc8_shift d y = push_bit 1 d"
    by (simp add: crc8_shift_def)
  have "\<not> bit d i" if "i < k" for i
  proof -
    from that assms(1) have "Suc i < Suc k" "Suc i < 8" by simp_all
    with assms(2) have "\<not> bit (push_bit 1 d) (Suc i)"
      by (simp only: eq [symmetric]) blast
    with \<open>Suc i < 8\<close> show ?thesis
      using bit_push_bit_1_byte [of i d] by blast
  qed
  with y eq show ?thesis by simp
qed

lemma crc8_bits_low_zero:
  assumes "k + n \<le> 8" and "\<forall>i<k + n. \<not> bit (crc8_bits n d e) i"
  shows "(\<forall>i<n. bit e i = bit d (7 - i)) \<and> (\<forall>i<k. \<not> bit d i)"
  using assms
proof (induction n arbitrary: k d e)
  case 0
  then show ?case by simp
next
  case (Suc n)
  let ?d = "crc8_shift d (bit e 0)"
  from Suc.prems have le: "Suc k + n \<le> 8"
    and low: "\<forall>i<Suc k + n. \<not> bit (crc8_bits n ?d (drop_bit 1 e)) i"
    by simp_all
  have ih: "(\<forall>i<n. bit (drop_bit 1 e) i = bit ?d (7 - i)) \<and> (\<forall>i<Suc k. \<not> bit ?d i)"
    using le low by (rule Suc.IH)
  from le have "k \<le> 7" by simp
  moreover from ih have "\<forall>i<Suc k. \<not> bit ?d i" by blast
  ultimately have c3: "bit e 0 = bit d 7 \<and> ?d = push_bit 1 d \<and> (\<forall>i<k. \<not> bit d i)"
    by (rule crc8_shift_low_zero)
  from c3 have first: "bit e 0 = bit d 7"
    by blast
  from c3 have shift: "?d = push_bit 1 d"
    by blast
  from c3 have zero: "\<forall>i<k. \<not> bit d i"
    by blast
  have "bit e i = bit d (7 - i)" if "i < Suc n" for i
  proof (cases i)
    case 0
    with first show ?thesis by simp
  next
    case (Suc j)
    with that have j: "j < n" by simp
    with le have "j < 7" by simp
    from ih j have "bit (drop_bit 1 e) j = bit ?d (7 - j)"
      by blast
    then have "bit (drop_bit 1 e) j = bit (push_bit 1 d) (7 - j)"
      by (simp only: shift)
    moreover have "bit (drop_bit 1 e) j = bit e (Suc j)"
      by (simp add: bit_simps)
    moreover have "bit (push_bit 1 d) (7 - j) = bit d (7 - Suc j)"
    proof -
      from \<open>j < 7\<close> have "7 - j = Suc (7 - Suc j)" and "Suc (7 - Suc j) < 8"
        by simp_all
      then show ?thesis
        by (simp only: bit_push_bit_1_byte)
    qed
    ultimately show ?thesis
      using Suc by simp
  qed
  with zero show ?case by simp
qed

lemma crc8_bits_zero:
  assumes "crc8_bits 8 d e = 0"
  shows "\<forall>i<8. bit e i = bit d (7 - i)"
  using crc8_bits_low_zero [of 0 8 d e] assms by simp

lemma crc8_bits_inj_byte:
  assumes "crc8_bits 8 c b = crc8_bits 8 c b'"
  shows "b = b'"
proof -
  from assms have "crc8_bits 8 c b XOR crc8_bits 8 c b' = 0" by simp
  then have "crc8_bits 8 0 (b XOR b') = 0"
    by (simp add: crc8_bits_xor)
  then have "\<forall>i<8. bit (b XOR b') i = bit (0 :: byte) (7 - i)"
    by (rule crc8_bits_zero)
  then have "\<forall>i<8. bit b i = bit b' i"
    by (simp add: bit_xor_iff)
  then show ?thesis
    by (auto intro: bit_word_eqI)
qed

lemma crc8_bits_inj_crc:
  assumes "crc8_bits 8 c b = crc8_bits 8 c' b"
  shows "c = c'"
proof -
  from assms have "crc8_bits 8 c b XOR crc8_bits 8 c' b = 0" by simp
  then have "crc8_bits 8 (c XOR c') 0 = 0"
    by (simp add: crc8_bits_xor)
  then have z: "\<forall>i<8. bit (0 :: byte) i = bit (c XOR c') (7 - i)"
    by (rule crc8_bits_zero)
  have "bit c i = bit c' i" if "i < 8" for i
  proof -
    from that have "7 - i < 8" and "7 - (7 - i) = i" by simp_all
    with z have "bit (0 :: byte) (7 - i) = bit (c XOR c') i"
      by metis
    then show ?thesis
      by (simp add: bit_xor_iff)
  qed
  then show ?thesis
    by (auto intro: bit_word_eqI)
qed

lemma crc8_from_inj_crc: "crc8_from c bs = crc8_from c' bs \<Longrightarrow> c = c'"
proof (induction bs arbitrary: c c')
  case Nil
  then show ?case by simp
next
  case (Cons b bs)
  then have "crc8_bits 8 c b = crc8_bits 8 c' b" by simp
  then show ?case by (rule crc8_bits_inj_crc)
qed

lemma crc8_from_list_update:
  assumes "i < length xs" and "b \<noteq> xs ! i"
  shows "crc8_from c (xs[i := b]) \<noteq> crc8_from c xs"
  using assms
proof (induction xs arbitrary: i c)
  case Nil
  then show ?case by simp
next
  case (Cons x xs)
  show ?case
  proof (cases i)
    case 0
    with Cons.prems have "b \<noteq> x" by simp
    then have "crc8_bits 8 c b \<noteq> crc8_bits 8 c x"
      using crc8_bits_inj_byte by blast
    then have "crc8_from (crc8_bits 8 c b) xs \<noteq> crc8_from (crc8_bits 8 c x) xs"
      using crc8_from_inj_crc by blast
    with 0 show ?thesis by simp
  next
    case (Suc j)
    with Cons.prems have "j < length xs" and "b \<noteq> xs ! j" by simp_all
    then have "crc8_from (crc8_bits 8 c x) (xs[j := b]) \<noteq> crc8_from (crc8_bits 8 c x) xs"
      by (rule Cons.IH)
    with Suc show ?thesis by simp
  qed
qed

lemma calc_crc8_list_update:
  assumes "i < length xs" and "b \<noteq> xs ! i"
  shows "calc_crc8 (xs[i := b]) \<noteq> calc_crc8 xs"
  using crc8_from_list_update [OF assms, of 0]
  by (metis calc_crc8_def word_uint_eq_iff)

lemma calc_crc8_detects_single_byte: "detects_single_byte calc_crc8"
  by (simp add: detects_single_byte_def calc_crc8_list_update)

section \<open>Properties of the serial frame decoder\<close>

lemma decode_read_frame:
  assumes "remove_serial_bits data = d"
  shows "decode_read crc8 reg data =
     (if length d < 5 then (None, [])
      else if uint (last d) \<noteq> crc8 (butlast d) then (None, [])
      else if d ! 0 \<noteq> 5 \<and> d ! 1 \<noteq> 255
        then (None, [Logging_warning (Received_wrong_message_prefix d)])
      else if uint (d ! 2) \<noteq> reg
        then (None, [Logging_warning (Received_response_for_reg (uint (d ! 2)) reg)])
      else (Some (butlast (drop 3 d)), []))"
  using assms by (simp add: decode_read_def Let_def)

lemma payload_between_register_and_crc:
  assumes "5 \<le> length d"
  shows "butlast (drop 3 d) = map ((!) d) [3 ..< length d - 1]"
  using assms by (auto simp add: list_eq_iff_nth_eq nth_butlast)

text \<open>
  C3. A frame of at least 5 bytes with a valid CRC whose byte 2 is the requested register
  is rejected by the marker check exactly when byte 0 is not \<open>0x05\<close> and byte 1 is not
  \<open>0xff\<close>; the rejection logs the frame. Otherwise the payload is returned: in
  particular when only one of the two markers is wrong.
\<close>

theorem decode_read_marker_check:
  "remove_serial_bits data = d \<and> 5 \<le> length d \<and> uint (last d) = crc8 (butlast d)
   \<and> uint (d ! 2) = reg \<longrightarrow>
     decode_read crc8 reg data =
       (if d ! 0 \<noteq> 5 \<and> d ! 1 \<noteq> 255
        then (None, [Logging_warning (Received_wrong_message_prefix d)])
        else (Some (butlast (drop 3 d)), []))
     \<and> (d ! 0 \<noteq> 5 \<and> d ! 1 = 255 \<longrightarrow> decode_read crc8 reg data = (Some (butlast (drop 3 d)), []))
     \<and> (d ! 0 = 5 \<and> d ! 1 \<noteq> 255 \<longrightarrow> decode_read crc8 reg data = (Some (butlast (drop 3 d)), []))"
  by (simp add: decode_read_frame)

theorem decode_read_marker_check_witness:
  "decode_read calc_crc8 33 [12, 250, 47, 36, 130, 248, 2] = (Some [4], [])
   \<and> decode_read calc_crc8 33 [10, 2, 40, 36, 130, 250, 3] = (Some [4], [])
   \<and> decode_read calc_crc8 33 [12, 2, 40, 36, 130, 174, 2]
       = (None, [Logging_warning (Received_wrong_message_prefix [6, 0, 33, 4, 87])])"
proof -
  have f1: "remove_serial_bits [12, 250, 47, 36, 130, 248, 2] = [6, 255, 33, 4, 124]"
    by code_simp
  have f2: "remove_serial_bits [10, 2, 40, 36, 130, 250, 3] = [5, 0, 33, 4, 253]"
    by code_simp
  have f3: "remove_serial_bits [12, 2, 40, 36, 130, 174, 2] = [6, 0, 33, 4, 87]"
    by code_simp
  have c1: "calc_crc8 [6, 255, 33, 4] = 124"
    by code_simp
  have c2: "calc_crc8 [5, 0, 33, 4] = 253"
    by code_simp
  have c3: "calc_crc8 [6, 0, 33, 4] = 87"
    by code_simp
  show ?thesis
    using decode_read_marker_check
        [of "[12, 250, 47, 36, 130, 248, 2]" "[6, 255, 33, 4, 124]" calc_crc8 33]
      decode_read_marker_check
        [of "[10, 2, 40, 36, 130, 250, 3]" "[5, 0, 33, 4, 253]" calc_crc8 33]
      decode_read_marker_check
        [of "[12, 2, 40, 36, 130, 174, 2]" "[6, 0, 33, 4, 87]" calc_crc8 33]
    by (simp add: f1 f2 f3 c1 c2 c3)
qed

text \<open>
  C6. The decoder returns no data when the unstuffed frame is shorter than 5 bytes, when
  its last byte is not the CRC of the bytes before it, and when byte 2 is not the
  requested register. A frame with a valid CRC in which one payload byte is then changed,
  the CRC byte kept, is rejected, for every CRC routine that tells apart inputs differing
  in one byte (the modelled CRC-8 is one). A frame with valid CRC, both markers and the
  requested register is accepted: the payload is the bytes after the register echo and
  before the CRC byte.
\<close>

theorem decode_read_crc_check:
  "remove_serial_bits data = d \<longrightarrow>
     (length d < 5 \<or> uint (last d) \<noteq> crc8 (butlast d) \<or> uint (d ! 2) \<noteq> reg \<longrightarrow>
        fst (decode_read crc8 reg data) = None)
     \<and> (detects_single_byte crc8 \<and> 5 \<le> length d \<and> uint (last d) = crc8 (butlast d)
          \<and> 3 \<le> i \<and> i < length d - 1 \<and> b \<noteq> d ! i
          \<and> remove_serial_bits data' = d[i := b] \<longrightarrow>
          fst (decode_read crc8 reg data') = None)
     \<and> (5 \<le> length d \<and> uint (last d) = crc8 (butlast d) \<and> d ! 0 = 5 \<and> d ! 1 = 255
          \<and> uint (d ! 2) = reg \<longrightarrow>
          decode_read crc8 reg data = (Some (butlast (drop 3 d)), [])
          \<and> butlast (drop 3 d) = map ((!) d) [3 ..< length d - 1])"
proof (intro impI conjI)
  assume d: "remove_serial_bits data = d"
  assume "length d < 5 \<or> uint (last d) \<noteq> crc8 (butlast d) \<or> uint (d ! 2) \<noteq> reg"
  then show "fst (decode_read crc8 reg data) = None"
    by (auto simp add: decode_read_frame [OF d])
next
  assume a: "detects_single_byte crc8 \<and> 5 \<le> length d \<and> uint (last d) = crc8 (butlast d)
          \<and> 3 \<le> i \<and> i < length d - 1 \<and> b \<noteq> d ! i
          \<and> remove_serial_bits data' = d[i := b]"
  then have d': "remove_serial_bits data' = d[i := b]" by simp
  from a have i: "i < length (butlast d)" and ne: "b \<noteq> butlast d ! i"
    by (simp_all add: nth_butlast)
  from a have "butlast (d[i := b]) = (butlast d)[i := b]"
    by (simp add: butlast_list_update)
  moreover from a i ne have "crc8 ((butlast d)[i := b]) \<noteq> crc8 (butlast d)"
    by (simp add: detects_single_byte_def)
  moreover from a have "last (d[i := b]) = last d"
    by (cases "d = []") (simp_all add: last_list_update)
  ultimately have "uint (last (d[i := b])) \<noteq> crc8 (butlast (d[i := b]))"
    using a by simp
  then show "fst (decode_read crc8 reg data') = None"
    by (simp add: decode_read_frame [OF d'])
next
  assume d: "remove_serial_bits data = d"
  assume a: "5 \<le> length d \<and> uint (last d) = crc8 (butlast d) \<and> d ! 0 = 5 \<and> d ! 1 = 255
          \<and> uint (d ! 2) = reg"
  then show "decode_read crc8 reg data = (Some (butlast (drop 3 d)), [])"
    by (simp add: decode_read_frame [OF d])
  from a show "butlast (drop 3 d) = map ((!) d) [3 ..< length d - 1]"
    by (simp add: payload_between_register_and_crc)
qed

theorem decode_read_crc_check_witness:
  "fst (decode_read calc_crc8 33 [10, 250, 47, 36, 130]) = None
   \<and> fst (decode_read calc_crc8 33 [10, 250, 47, 164, 130, 172, 3]) = None
   \<and> fst (decode_read calc_crc8 34 [10, 250, 47, 36, 130, 172, 3]) = None
   \<and> decode_read calc_crc8 33 [10, 250, 47, 36, 130, 172, 3] = (Some [4], [])
   \<and> decode_read calc_crc8 36 [10, 250, 143, 36, 136, 4, 2, 8, 160, 172]
       = (Some [16, 2, 0, 0], [])"
proof -
  have f0: "remove_serial_bits [10, 250, 47, 36, 130] = [5, 255, 33, 4]"
    by code_simp
  have f1: "remove_serial_bits [10, 250, 47, 36, 130, 172, 3] = [5, 255, 33, 4, 214]"
    by code_simp
  have f2: "remove_serial_bits [10, 250, 47, 164, 130, 172, 3] = [5, 255, 33, 4, 214][3 := 5]"
    by code_simp
  have f3: "remove_serial_bits [10, 250, 143, 36, 136, 4, 2, 8, 160, 172]
              = [5, 255, 36, 16, 2, 0, 0, 89]"
    by code_simp
  have c1: "calc_crc8 [5, 255, 33, 4] = 214"
    by code_simp
  have c2: "calc_crc8 [5, 255, 33, 5] = 95"
    by code_simp
  have c3: "calc_crc8 [5, 255, 36, 16, 2, 0, 0] = 89"
    by code_simp
  show ?thesis
    using decode_read_crc_check
        [of "[10, 250, 47, 36, 130]" "[5, 255, 33, 4]" calc_crc8 33 3 5 "[]"]
      decode_read_crc_check
        [of "[10, 250, 47, 164, 130, 172, 3]" "[5, 255, 33, 5, 214]" calc_crc8 33 3 5 "[]"]
      decode_read_crc_check
        [of "[10, 250, 47, 36, 130, 172, 3]" "[5, 255, 33, 4, 214]" calc_crc8 33 3 5
          "[10, 250, 47, 164, 130, 172, 3]"]
      decode_read_crc_check
        [of "[10, 250, 47, 36, 130, 172, 3]" "[5, 255, 33, 4, 214]" calc_crc8 34 3 5 "[]"]
      decode_read_crc_check
        [of "[10, 250, 143, 36, 136, 4, 2, 8, 160, 172]" "[5, 255, 36, 16, 2, 0, 0, 89]"
          calc_crc8 36 3 5 "[]"]
      calc_crc8_detects_single_byte
    by (simp add: f0 f1 f2 f3 c1 c2 c3)
qed

end
